theory Spec2Isabelle
  imports Main "HOL-Library.Sublist"
begin

section \<open>Python text primitives used by the scanner\<close>

text \<open>
  Text is modelled as \<open>string\<close>: a list of 8-bit characters, each standing for the code
  point of the same number. On that alphabet the functions below are what Python's
  \<open>str\<close> methods compute: \<open>len\<close> is \<open>length\<close>, the decimal digits are \<open>0\<close> to \<open>9\<close>, and
  the white space of \<open>str.strip()\<close> is the set given by \<open>isspace\<close>.
\<close>

datatype exn = ValueError | IndexError | OtherException string

definition isspace :: "char \<Rightarrow> bool" where
  "isspace c =
     (let n = (of_char c :: nat)
      in (9 \<le> n \<and> n \<le> 13) \<or> (28 \<le> n \<and> n \<le> 32) \<or> n = 133 \<or> n = 160)"

definition strip :: "string \<Rightarrow> string" where
  "strip s = rev (dropWhile isspace (rev (dropWhile isspace s)))"

text \<open>\<open>s.startswith(p)\<close>, \<open>s.endswith(p)\<close> and \<open>p in s\<close>.\<close>

definition startswith :: "string \<Rightarrow> string \<Rightarrow> bool" where
  "startswith s p = prefix p s"

definition endswith :: "string \<Rightarrow> string \<Rightarrow> bool" where
  "endswith s p = suffix p s"

definition contains :: "string \<Rightarrow> string \<Rightarrow> bool" where
  "contains s p = sublist p s"

text \<open>\<open>s.split(d)\<close> for a one-character separator: never the empty list.\<close>

fun split_on :: "char \<Rightarrow> string \<Rightarrow> string list" where
  "split_on d [] = [[]]"
| "split_on d (c # cs) =
     (if c = d then [] # split_on d cs
      else (case split_on d cs of
              [] \<Rightarrow> [[c]]
            | w # ws \<Rightarrow> (c # w) # ws))"

text \<open>\<open>xs[i]\<close> for a non-negative constant index; out of range raises IndexError.\<close>

definition index :: "'a list \<Rightarrow> nat \<Rightarrow> exn + 'a" where
  "index xs i = (if i < length xs then Inr (xs ! i) else Inl IndexError)"

text \<open>
  \<open>int(s)\<close> on text, base ten: white space around the literal is dropped, one sign may
  lead, and the digits may be grouped by single underscores. Anything else raises
  ValueError. (The interpreter's limit on the number of digits of a literal, a
  configurable setting of recent versions, is not part of the model.)
\<close>

definition isdigit :: "char \<Rightarrow> bool" where
  "isdigit c = (let n = (of_char c :: nat) in 48 \<le> n \<and> n \<le> 57)"

definition digit_value :: "char \<Rightarrow> int" where
  "digit_value c = int (of_char c) - 48"

fun parse_digits :: "int \<Rightarrow> string \<Rightarrow> int option" where
  "parse_digits acc [] = Some acc"
| "parse_digits acc [c] =
     (if isdigit c then Some (acc * 10 + digit_value c) else None)"
| "parse_digits acc (c # d # ds) =
     (if isdigit c then parse_digits (acc * 10 + digit_value c) (d # ds)
      else if c = CHR ''_'' \<and> isdigit d then parse_digits (acc * 10 + digit_value d) ds
      else None)"

definition parse_unsigned :: "string \<Rightarrow> int option" where
  "parse_unsigned s =
     (case s of
        [] \<Rightarrow> None
      | c # cs \<Rightarrow> if isdigit c then parse_digits (digit_value c) cs else None)"

definition py_int :: "string \<Rightarrow> exn + int" where
  "py_int s =
     (let t = strip s;
          v = (case t of
                 [] \<Rightarrow> None
               | c # cs \<Rightarrow>
                   if c = CHR ''-'' then map_option uminus (parse_unsigned cs)
                   else if c = CHR ''+'' then parse_unsigned cs
                   else parse_unsigned t)
      in case v of None \<Rightarrow> Inl ValueError | Some n \<Rightarrow> Inr n)"

section \<open>The scan results and the live parser\<close>

text \<open>
  \<open>self.scan_results\<close>, the dictionary with the keys \<open>scanned\<close>, \<open>infected\<close> and
  \<open>threats\<close>. Python integers are unbounded, and \<open>int()\<close> may yield a negative one.
\<close>

record scan_results =
  scanned :: int
  infected :: int
  threats :: "string list"

definition reset_results :: scan_results where
  "reset_results = \<lparr>scanned = 0, infected = 0, threats = []\<rparr>"

text \<open>
  \<open>int(line.split(':')[1].strip())\<close>, the value of a summary line; both exceptions the
  source catches are results here.
\<close>

definition summary_value :: "string \<Rightarrow> exn + int" where
  "summary_value line =
     (case index (split_on CHR '':'' line) 1 of
        Inl e \<Rightarrow> Inl e
      | Inr field \<Rightarrow> py_int (strip field))"

text \<open>
  The block \<open>if ":" in line: ...\<close> of \<open>parse_scan_output\<close>. It either returns from the
  function with new results (\<open>Some\<close>) or falls through to the checks after it (\<open>None\<close>):
  a summary line whose value does not parse is caught by \<open>except: pass\<close> and falls
  through.
\<close>

definition parse_summary :: "scan_results \<Rightarrow> string \<Rightarrow> scan_results option" where
  "parse_summary r line =
     (if contains line '':'' then
        (if startswith line ''Scanned files:'' then
           (case summary_value line of
              Inr n \<Rightarrow> Some (r\<lparr>scanned := n\<rparr>)
            | Inl e \<Rightarrow> None)
         else if startswith line ''Infected files:'' then
           (case summary_value line of
              Inr n \<Rightarrow> Some (r\<lparr>infected := n\<rparr>)
            | Inl e \<Rightarrow> None)
         else None)
      else None)"

text \<open>
  \<open>parse_scan_output\<close>: the results after one line of engine output. The writes to the
  log and to the display variables do not touch the results and are left out.
\<close>

definition parse_scan_output :: "scan_results \<Rightarrow> string \<Rightarrow> scan_results" where
  "parse_scan_output r output =
     (if output = [] \<or> length (strip output) = 0 then r
      else
        let line = strip output in
        if contains line '' FOUND'' \<or> endswith line '' FOUND'' then
          r\<lparr>infected := infected r + 1, threats := threats r @ [line]\<rparr>
        else
          (case parse_summary r line of
             Some r' \<Rightarrow> r'
           | None \<Rightarrow>
               if endswith line '': OK'' \<or> endswith line '': Empty file'' then
                 r\<lparr>scanned := scanned r + 1\<rparr>
               else if contains line '': '' \<and>
                       (endswith line '' OK'' \<or> endswith line '' Empty file'' \<or>
                        endswith line '' Excluded'') then
                 r\<lparr>scanned := scanned r + 1\<rparr>
               else if startswith line ''/'' \<and> \<not> endswith line '':'' \<and>
                       \<not> contains line '':'' \<and> length line > 10 then
                 r\<lparr>scanned := scanned r + 1\<rparr>
               else r))"

text \<open>
  How \<open>perform_virus_scan\<close> feeds the parser. While the process runs it reads one line at
  a time, strips it and parses it when it is not empty (\<open>live_lines\<close>); when the
  process has exited it splits what is still buffered at the newlines and handles each
  piece the same way (\<open>drain_remaining\<close>).
\<close>

definition feed_line :: "scan_results \<Rightarrow> string \<Rightarrow> scan_results" where
  "feed_line r output =
     (let line = strip output in if line \<noteq> [] then parse_scan_output r line else r)"

definition live_lines :: "scan_results \<Rightarrow> string list \<Rightarrow> scan_results" where
  "live_lines r outputs = foldl feed_line r outputs"

definition drain_remaining :: "scan_results \<Rightarrow> string \<Rightarrow> scan_results" where
  "drain_remaining r remaining_output =
     (if remaining_output \<noteq> [] then foldl feed_line r (split_on CHR 0x0A remaining_output)
      else r)"

section \<open>Events: the classification that the parser performs inline\<close>

text \<open>
  The source has no separate classifier. \<open>classify\<close> repeats the conditions of
  \<open>parse_scan_output\<close>, in its order, and names the branch a line takes by the event of
  the design; \<open>apply_event\<close> is the update that branch performs.
\<close>

datatype scan_event =
    ThreatFound string
  | FileOk
  | SummaryScanned int
  | SummaryInfected int
  | Ignored

definition summary_event :: "string \<Rightarrow> scan_event option" where
  "summary_event line =
     (if contains line '':'' then
        (if startswith line ''Scanned files:'' then
           (case summary_value line of
              Inr n \<Rightarrow> Some (SummaryScanned n)
            | Inl e \<Rightarrow> None)
         else if startswith line ''Infected files:'' then
           (case summary_value line of
              Inr n \<Rightarrow> Some (SummaryInfected n)
            | Inl e \<Rightarrow> None)
         else None)
      else None)"

definition classify :: "string \<Rightarrow> scan_event" where
  "classify output =
     (if output = [] \<or> length (strip output) = 0 then Ignored
      else
        let line = strip output in
        if contains line '' FOUND'' \<or> endswith line '' FOUND'' then ThreatFound line
        else
          (case summary_event line of
             Some e \<Rightarrow> e
           | None \<Rightarrow>
               if endswith line '': OK'' \<or> endswith line '': Empty file'' then FileOk
               else if contains line '': '' \<and>
                       (endswith line '' OK'' \<or> endswith line '' Empty file'' \<or>
                        endswith line '' Excluded'') then FileOk
               else if startswith line ''/'' \<and> \<not> endswith line '':'' \<and>
                       \<not> contains line '':'' \<and> length line > 10 then FileOk
               else Ignored))"

fun apply_event :: "scan_event \<Rightarrow> scan_results \<Rightarrow> scan_results" where
  "apply_event (ThreatFound d) r = r\<lparr>infected := infected r + 1, threats := threats r @ [d]\<rparr>"
| "apply_event FileOk r = r\<lparr>scanned := scanned r + 1\<rparr>"
| "apply_event (SummaryScanned n) r = r\<lparr>scanned := n\<rparr>"
| "apply_event (SummaryInfected n) r = r\<lparr>infected := n\<rparr>"
| "apply_event Ignored r = r"

section \<open>The parser of the final results\<close>

text \<open>
  \<open>parse_final_results\<close>, one line of its loop first. A line that opens the summary
  section is skipped (\<open>continue\<close>); the flag it sets is read nowhere. The counters take
  the maximum of their value and the reported one, and a line with \<open>FOUND\<close> is added to
  the threats unless it is among them already. No caller of this function exists in
  the sources: \<open>perform_virus_scan\<close> hands the output buffered at the end of the scan
  to \<open>parse_scan_output\<close>.
\<close>

definition final_counters :: "scan_results \<Rightarrow> string \<Rightarrow> scan_results" where
  "final_counters r line =
     (if contains line '':'' then
        (if contains line ''Scanned files:'' \<or> contains line ''scanned files:'' then
           (case summary_value line of
              Inr n \<Rightarrow> r\<lparr>scanned := max (scanned r) n\<rparr>
            | Inl e \<Rightarrow> r)
         else if contains line ''Infected files:'' \<or> contains line ''infected files:'' then
           (case summary_value line of
              Inr n \<Rightarrow> r\<lparr>infected := max (infected r) n\<rparr>
            | Inl e \<Rightarrow> r)
         else r)
      else r)"

definition final_line :: "scan_results \<Rightarrow> string \<Rightarrow> scan_results" where
  "final_line r raw =
     (let line = strip raw in
      if line = [] then r
      else if contains line ''SCAN SUMMARY'' \<or> startswith line ''-------'' then r
      else
        let r1 = final_counters r line in
        if contains line ''FOUND'' \<and> line \<notin> set (threats r1)
        then r1\<lparr>threats := threats r1 @ [line]\<rparr>
        else r1)"

definition parse_final_results :: "scan_results \<Rightarrow> string \<Rightarrow> scan_results" where
  "parse_final_results r output =
     (if output = [] then r else foldl final_line r (split_on CHR 0x0A output))"

section \<open>The classification rules as the design words them\<close>

text \<open>
  The six rules of the output parser, in their priority, written from the words of the
  design and not from the code, to be compared with \<open>classify\<close>. The token of an infected
  match is \<open>FOUND\<close> after a blank. The integer of a summary line is the text between the
  label and the next colon, if there is one, read as \<open>int()\<close> reads it.
\<close>

definition found_token :: "string \<Rightarrow> bool" where
  "found_token line = contains line '' FOUND''"

definition value_after :: "string \<Rightarrow> string \<Rightarrow> int option" where
  "value_after label line =
     (if startswith line label then
        (case py_int (takeWhile (\<lambda>c. c \<noteq> CHR '':'') (drop (length label) line)) of
           Inr n \<Rightarrow> Some n
         | Inl e \<Rightarrow> None)
      else None)"

definition ends_with_marker :: "string \<Rightarrow> bool" where
  "ends_with_marker line =
     (endswith line '' OK'' \<or> endswith line '' Empty file'' \<or> endswith line '' Excluded'')"

definition path_like :: "string \<Rightarrow> bool" where
  "path_like line = (startswith line ''/'' \<and> \<not> contains line '':'' \<and> length line > 10)"

text \<open>
  \<open>rules\<close> takes the fourth rule as a parameter: \<open>classify_spec\<close> has it as worded (the
  line ends with a marker), \<open>classify_amended\<close> also asks for a colon and a blank
  somewhere in the line.
\<close>

definition rules :: "(string \<Rightarrow> bool) \<Rightarrow> string \<Rightarrow> scan_event" where
  "rules rule4 line =
     (if found_token line then ThreatFound line
      else case value_after ''Scanned files:'' line of
        Some n \<Rightarrow> SummaryScanned n
      | None \<Rightarrow>
         (case value_after ''Infected files:'' line of
            Some n \<Rightarrow> SummaryInfected n
          | None \<Rightarrow>
              if rule4 line then FileOk
              else if path_like line then FileOk
              else Ignored))"

definition classify_spec :: "string \<Rightarrow> scan_event" where
  "classify_spec line = rules ends_with_marker line"

definition result_marker :: "string \<Rightarrow> bool" where
  "result_marker line = (contains line '': '' \<and> ends_with_marker line)"

definition classify_amended :: "string \<Rightarrow> scan_event" where
  "classify_amended line = rules result_marker line"

section \<open>Partition discovery\<close>

text \<open>
  \<open>s.replace(old, new)\<close>: the occurrences of \<open>old\<close> are replaced from the left, without
  overlap; an empty \<open>old\<close> puts \<open>new\<close> before every character and at the end.
\<close>

function replace_from :: "string \<Rightarrow> string \<Rightarrow> string \<Rightarrow> string" where
  "replace_from old new [] = []"
| "replace_from old new (c # cs) =
     (if old \<noteq> [] \<and> prefix old (c # cs)
      then new @ replace_from old new (drop (length old) (c # cs))
      else c # replace_from old new cs)"
  by pat_completeness auto
termination
  by (relation "measure (\<lambda>(old, new, s). length s)") auto

definition replace :: "string \<Rightarrow> string \<Rightarrow> string \<Rightarrow> string" where
  "replace s old new =
     (if old = [] then new @ concat (map (\<lambda>c. c # new) s) else replace_from old new s)"

text \<open>
  The two tree prefixes that \<open>lsblk\<close> prints before a partition name are box-drawing
  characters, outside the 8-bit alphabet: they stand here as the bytes of their UTF-8
  encoding, the form in which they arrive on the pipe.
\<close>

definition tree_branch :: string where
  "tree_branch = [CHR 0xE2, CHR 0x94, CHR 0x9C, CHR 0xE2, CHR 0x94, CHR 0x80]"

definition tree_corner :: string where
  "tree_corner = [CHR 0xE2, CHR 0x94, CHR 0x94, CHR 0xE2, CHR 0x94, CHR 0x80]"

text \<open>The body of the loop over \<open>lines[1:]\<close>: the partition a line names, if any.\<close>

definition partition_of_line :: "string \<Rightarrow> string \<Rightarrow> string option" where
  "partition_of_line base_device line =
     (let part = strip line;
          part =
            (if startswith part tree_branch \<or> startswith part tree_corner
             then strip (replace (replace part tree_branch []) tree_corner [])
             else if startswith part ''  '' then strip part
             else part)
      in if part \<noteq> [] \<and> part \<noteq> base_device
         then Some (''/dev/'' @ part) else None)"

text \<open>
  \<open>get_disk_partitions\<close>. \<open>run_command\<close> belongs to a module that is not among the
  sources; what it returns for the \<open>lsblk\<close> query, or the exception it raises, is the
  second argument. Any exception ends in the empty list (and a warning in the log).
\<close>

definition get_disk_partitions :: "string \<Rightarrow> exn + string \<Rightarrow> string list" where
  "get_disk_partitions device lsblk =
     (let base_device = replace device ''/dev/'' [] in
      case lsblk of
        Inl e \<Rightarrow> []
      | Inr output \<Rightarrow>
          List.map_filter (partition_of_line base_device)
            (tl (split_on CHR 0x0A (strip output))))"

section \<open>The scan session\<close>

text \<open>
  What the session does to the world outside is a list of actions, in the order of the
  calls: the lines it writes to the log, the directories it makes and removes, the
  \<open>mount\<close> and \<open>umount\<close> commands it runs (with the timeout it gives them, in seconds)
  and the scan process it starts, drains and stops. The calls that write to the log
  are taken to return; every other call that can fail has its failure among the
  answers of the world below. A call of \<open>os.rmdir\<close> whose failure the code swallows
  (\<open>except: pass\<close>) is recorded as the call. The updates of the display (status line,
  counters, progress bar) are left out.
\<close>

datatype action =
    UpdateLog string
  | LogWarning string
  | Makedirs string
  | Mount string string nat
  | Rmdir string
  | Umount string nat
  | UmountForce string nat
  | Popen "string list"
  | Communicate nat
  | Terminate
  | Wait nat
  | Kill

text \<open>
  What the world answers. For one partition: \<open>os.makedirs\<close> raises, or \<open>mount\<close> returns
  with an exit status and its error text, or runs into the timeout, or
  \<open>subprocess.run\<close> raises something else. For one mount point at cleanup: \<open>umount\<close>
  returns (the exit status is not read) and \<open>os.rmdir\<close> succeeds or raises; or \<open>umount\<close>
  times out, and then the forced \<open>umount\<close> returns (and \<open>os.rmdir\<close> succeeds or raises)
  or fails in any way, the timeout included; or \<open>umount\<close> raises something else.
\<close>

datatype mount_outcome =
    MakedirsRaised string
  | MountReturned int string
  | MountTimedOut
  | MountRaised string

datatype rmdir_outcome = Removed | RmdirRaised string

datatype force_outcome = ForceReturned rmdir_outcome | ForceFailed

datatype umount_outcome =
    UmountReturned rmdir_outcome
  | UmountTimedOut force_outcome
  | UmountRaised string

text \<open>
  The scan process. A read of the monitoring loop returns a line of output or raises
  (logged, and the loop goes on). The run ends in one of these ways: \<open>Popen\<close> raises;
  the process exits while the scan is still wanted and \<open>communicate\<close> returns the
  buffered rest, or times out, or raises; or the user has stopped the scan, the process
  is terminated, and the wait for it returns in time or not.
\<close>

datatype read = Line string | ReadRaised string

datatype scan_outcome =
    PopenRaised string
  | Exited "read list" string
  | ExitedDrainTimedOut "read list"
  | ExitedDrainRaised "read list" string
  | StoppedByUser "read list" bool

record world =
  lsblk_result :: "exn + string"
  clock :: "string \<Rightarrow> nat"
  mount_result :: "string \<Rightarrow> mount_outcome"
  scan_run :: scan_outcome
  umount_result :: "string \<Rightarrow> umount_outcome"

text \<open>Decimal text of a number, as an f-string prints it, and \<open>sep.join(xs)\<close>.\<close>

fun show_nat :: "nat \<Rightarrow> string" where
  "show_nat n =
     (if n < 10 then [char_of (48 + n)]
      else show_nat (n div 10) @ [char_of (48 + n mod 10)])"

fun join :: "string \<Rightarrow> string list \<Rightarrow> string" where
  "join sep [] = []"
| "join sep [x] = x"
| "join sep (x # y # ys) = x @ sep @ join sep (y # ys)"

definition mount_point_name :: "string \<Rightarrow> nat \<Rightarrow> string" where
  "mount_point_name part t =
     ''/tmp/virus_scan_'' @ replace part ''/'' ''_'' @ ''_'' @ show_nat t"

text \<open>
  One turn of the loop over the partitions: the scan targets and the mount points
  after it, and the actions of the turn. Every exception of the turn is caught in the
  turn; each handler logs and calls \<open>os.rmdir\<close>, whose own failure is swallowed.
\<close>

definition mount_partition ::
  "world \<Rightarrow> string \<Rightarrow> string list \<times> string list \<Rightarrow> (string list \<times> string list) \<times> action list"
where
  "mount_partition w part st =
     (let (scan_targets, mount_points) = st;
          mount_point = mount_point_name part (clock w part)
      in case mount_result w part of
           MakedirsRaised msg \<Rightarrow>
             ((scan_targets, mount_points),
              [Makedirs mount_point,
               UpdateLog (''Error mounting '' @ part @ '': '' @ msg),
               Rmdir mount_point])
         | MountReturned returncode stderr \<Rightarrow>
             if returncode = 0 then
               ((scan_targets @ [mount_point], mount_points @ [mount_point]),
                [Makedirs mount_point, Mount part mount_point 30,
                 UpdateLog (''Mounted '' @ part @ '' at '' @ mount_point)])
             else
               ((scan_targets, mount_points),
                [Makedirs mount_point, Mount part mount_point 30,
                 UpdateLog (''Failed to mount '' @ part @ '': '' @ strip stderr),
                 Rmdir mount_point])
         | MountTimedOut \<Rightarrow>
             ((scan_targets, mount_points),
              [Makedirs mount_point, Mount part mount_point 30,
               UpdateLog (''Mount timeout for '' @ part),
               Rmdir mount_point])
         | MountRaised msg \<Rightarrow>
             ((scan_targets, mount_points),
              [Makedirs mount_point, Mount part mount_point 30,
               UpdateLog (''Error mounting '' @ part @ '': '' @ msg),
               Rmdir mount_point]))"

fun mount_all ::
  "world \<Rightarrow> string list \<Rightarrow> string list \<times> string list \<Rightarrow> (string list \<times> string list) \<times> action list"
where
  "mount_all w [] st = (st, [])"
| "mount_all w (part # rest) st =
     (let (st1, acts1) = mount_partition w part st;
          (st2, acts2) = mount_all w rest st1
      in (st2, acts1 @ acts2))"

text \<open>
  The choice of the scan targets, the first part of the \<open>try\<close> block of
  \<open>perform_virus_scan\<close>: the targets, the mount points made, the actions.
\<close>

definition resolve_targets ::
  "world \<Rightarrow> string \<Rightarrow> string \<Rightarrow> (string list \<times> string list) \<times> action list"
where
  "resolve_targets w mode device =
     (if mode = ''deep'' then
        (let partitions = get_disk_partitions device (lsblk_result w) in
         if partitions = [] then
           (([''/''], []),
            [UpdateLog (''No partitions found on '' @ device @ '', skipping deep scan'')])
         else
           (let log1 = UpdateLog (''Found '' @ show_nat (length partitions) @
                                  '' partitions on '' @ device);
                ((scan_targets, mount_points), acts) = mount_all w partitions ([], [])
            in if scan_targets = [] then
                 (([''/''], mount_points),
                  log1 # acts @
                  [UpdateLog ''No partitions could be mounted, falling back to quick scan''])
               else ((scan_targets, mount_points), log1 # acts)))
      else
        (([''/''], []), [UpdateLog ''Quick scan mode: scanning mounted filesystems'']))"

text \<open>The command line: \<open>clamscan\<close>, its options, then the targets.\<close>

definition clamscan_options :: "bool \<Rightarrow> string list" where
  "clamscan_options remove_infected =
     [''clamscan''] @ (if remove_infected then [''--remove''] else []) @
     [''--recursive'', ''--verbose'', ''--stdout'', ''--log=/var/log/disk_erase.log'']"

text \<open>The monitoring loop over the reads: the results and the warnings logged.\<close>

fun monitor :: "scan_results \<Rightarrow> read list \<Rightarrow> scan_results \<times> action list" where
  "monitor r [] = (r, [])"
| "monitor r (Line output # rest) = monitor (feed_line r output) rest"
| "monitor r (ReadRaised msg # rest) =
     (let (r', acts) = monitor r rest
      in (r', LogWarning (''Error reading scan output: '' @ msg) # acts))"

text \<open>
  From \<open>Popen\<close> to the end of the \<open>try\<close> block: the results, the message of the
  exception that leaves the block if there is one, and the actions.
\<close>

definition run_scan ::
  "world \<Rightarrow> string list \<Rightarrow> scan_results \<Rightarrow> scan_results \<times> string option \<times> action list"
where
  "run_scan w cmd r =
     (case scan_run w of
        PopenRaised msg \<Rightarrow> (r, Some msg, [Popen cmd])
      | Exited reads remaining_output \<Rightarrow>
          (let (r1, acts) = monitor r reads
           in (drain_remaining r1 remaining_output, None, Popen cmd # acts @ [Communicate 5]))
      | ExitedDrainTimedOut reads \<Rightarrow>
          (let (r1, acts) = monitor r reads
           in (r1, None,
               Popen cmd # acts @
               [Communicate 5, UpdateLog ''Timeout waiting for final scan output'', Kill]))
      | ExitedDrainRaised reads msg \<Rightarrow>
          (let (r1, acts) = monitor r reads
           in (r1, Some msg, Popen cmd # acts @ [Communicate 5]))
      | StoppedByUser reads in_time \<Rightarrow>
          (let (r1, acts) = monitor r reads
           in (r1, None,
               Popen cmd # acts @ [Terminate, Wait 5] @ (if in_time then [] else [Kill]))))"

text \<open>
  The \<open>finally\<close> block, one mount point first. No exception leaves it: the handlers
  catch every one and log it.
\<close>

definition unmount :: "world \<Rightarrow> string \<Rightarrow> action list" where
  "unmount w mount_point =
     UpdateLog (''Unmounting '' @ mount_point) # Umount mount_point 10 #
     (case umount_result w mount_point of
        UmountReturned Removed \<Rightarrow>
          [Rmdir mount_point, UpdateLog (''Cleaned up '' @ mount_point)]
      | UmountReturned (RmdirRaised msg) \<Rightarrow>
          [Rmdir mount_point, LogWarning (''Cleanup failed for '' @ mount_point @ '': '' @ msg)]
      | UmountTimedOut forced \<Rightarrow>
          UpdateLog (''Timeout unmounting '' @ mount_point) # UmountForce mount_point 5 #
          (case forced of
             ForceReturned Removed \<Rightarrow> [Rmdir mount_point]
           | ForceReturned (RmdirRaised msg) \<Rightarrow>
               [Rmdir mount_point, LogWarning (''Failed to force unmount '' @ mount_point)]
           | ForceFailed \<Rightarrow> [LogWarning (''Failed to force unmount '' @ mount_point)])
      | UmountRaised msg \<Rightarrow>
          [LogWarning (''Cleanup failed for '' @ mount_point @ '': '' @ msg)])"

definition cleanup :: "world \<Rightarrow> string list \<Rightarrow> action list" where
  "cleanup w mount_points = concat (map (unmount w) mount_points)"

text \<open>
  \<open>perform_virus_scan\<close>: the results, the exception it raises if any (the one of the
  \<open>try\<close> block, wrapped), and all its actions, those of the \<open>finally\<close> block last.
\<close>

definition perform_virus_scan ::
  "world \<Rightarrow> bool \<Rightarrow> string \<Rightarrow> string \<Rightarrow> scan_results \<Rightarrow> scan_results \<times> exn option \<times> action list"
where
  "perform_virus_scan w remove_infected mode device r =
     (let ((scan_targets, mount_points), acts1) = resolve_targets w mode device;
          cmd = clamscan_options remove_infected @ scan_targets;
          (r', raised, acts2) = run_scan w cmd r
      in (r',
          map_option (\<lambda>msg. OtherException (''Scan execution failed: '' @ msg)) raised,
          UpdateLog (''Starting virus scan on '' @ device @ ''...'') # acts1 @
          [UpdateLog (''Scan command: '' @ join '' '' cmd),
           UpdateLog (''Scanning targets: '' @ join '', '' scan_targets)] @
          acts2 @ cleanup w mount_points))"

section \<open>Vocabulary for the claims about the session\<close>

text \<open>
  A partition is mounted when \<open>mount\<close> returned with exit status zero; its mount point
  is named from it and the clock. The effects of a list of actions are those that are
  not lines of the log.
\<close>

definition mounted_ok :: "world \<Rightarrow> string \<Rightarrow> bool" where
  "mounted_ok w part =
     (case mount_result w part of MountReturned returncode stderr \<Rightarrow> returncode = 0 | _ \<Rightarrow> False)"

definition mount_point_of :: "world \<Rightarrow> string \<Rightarrow> string" where
  "mount_point_of w part = mount_point_name part (clock w part)"

definition is_log :: "action \<Rightarrow> bool" where
  "is_log a = (case a of UpdateLog msg \<Rightarrow> True | LogWarning msg \<Rightarrow> True | _ \<Rightarrow> False)"

definition effects :: "action list \<Rightarrow> action list" where
  "effects acts = filter (\<lambda>a. \<not> is_log a) acts"

text \<open>
  What the design asks of the turn for one partition: make the directory; run the
  read-only mount with its bound of 30 seconds (unless the directory could not be
  made); and, if the partition is not mounted after that, remove the directory.
\<close>

definition attempt :: "world \<Rightarrow> string \<Rightarrow> action list" where
  "attempt w part =
     (let mount_point = mount_point_of w part in
      Makedirs mount_point #
      (case mount_result w part of
         MakedirsRaised msg \<Rightarrow> []
       | _ \<Rightarrow> [Mount part mount_point 30]) @
      (if mounted_ok w part then [] else [Rmdir mount_point]))"

text \<open>
  The outcomes of the cleanup of one mount point in which \<open>os.rmdir\<close> is called, those
  in which the forced unmount is tried, and those that count as a failure.
\<close>

definition rmdir_reached :: "umount_outcome \<Rightarrow> bool" where
  "rmdir_reached out =
     (case out of
        UmountReturned rm \<Rightarrow> True
      | UmountTimedOut (ForceReturned rm) \<Rightarrow> True
      | UmountTimedOut ForceFailed \<Rightarrow> False
      | UmountRaised msg \<Rightarrow> False)"

definition escalated :: "umount_outcome \<Rightarrow> bool" where
  "escalated out = (case out of UmountTimedOut forced \<Rightarrow> True | _ \<Rightarrow> False)"

definition cleanup_failed :: "umount_outcome \<Rightarrow> bool" where
  "cleanup_failed out =
     (case out of
        UmountReturned Removed \<Rightarrow> False
      | UmountTimedOut (ForceReturned Removed) \<Rightarrow> False
      | _ \<Rightarrow> True)"

definition scan_raises :: "world \<Rightarrow> bool" where
  "scan_raises w =
     (case scan_run w of
        PopenRaised msg \<Rightarrow> True
      | ExitedDrainRaised reads msg \<Rightarrow> True
      | _ \<Rightarrow> False)"

text \<open>
  The effects of the cleanup of one mount point, as the code orders them: the graceful
  unmount bounded at 10 seconds; on its timeout the forced one bounded at 5 seconds;
  the removal of the directory when the unmount last tried has returned.
\<close>

definition release :: "world \<Rightarrow> string \<Rightarrow> action list" where
  "release w mount_point =
     Umount mount_point 10 #
     (if escalated (umount_result w mount_point) then [UmountForce mount_point 5] else []) @
     (if rmdir_reached (umount_result w mount_point) then [Rmdir mount_point] else [])"

declare show_nat.simps [simp del]

section \<open>Lemmas: text primitives and the two parsers\<close>


lemma endswith_contains: "endswith s p \<Longrightarrow> contains s p"
  by (simp add: endswith_def contains_def)

lemma startswith_contains: "startswith s p \<Longrightarrow> contains s p"
  by (simp add: startswith_def contains_def)

lemma contains_part: "contains s p \<Longrightarrow> sublist q p \<Longrightarrow> contains s q"
  unfolding contains_def by (rule sublist_order.order.trans)

lemma endswith_part: "endswith s p \<Longrightarrow> suffix q p \<Longrightarrow> endswith s q"
  unfolding endswith_def by (rule suffix_order.trans)

lemma split_on_not_Nil: "split_on d s \<noteq> []"
  by (induction s) (auto split: list.splits)

lemma split_on_no_sep: "d \<notin> set p \<Longrightarrow> split_on d (p @ d # t) = p # split_on d t"
  by (induction p) (auto split: list.splits simp: split_on_not_Nil)

lemma hd_split_on: "hd (split_on d t) = takeWhile (\<lambda>c. c \<noteq> d) t"
  by (induction t) (auto split: list.splits simp: split_on_not_Nil)

lemma index_split_on_label:
  assumes "d \<notin> set p"
  shows "index (split_on d (p @ d # t)) 1 = Inr (takeWhile (\<lambda>c. c \<noteq> d) t)"
proof -
  obtain w ws where w: "split_on d t = w # ws"
    using split_on_not_Nil [of d t] by (cases "split_on d t") auto
  have "w = takeWhile (\<lambda>c. c \<noteq> d) t"
    using hd_split_on [of d t] w by simp
  then show ?thesis
    using assms w by (simp add: split_on_no_sep index_def)
qed



lemma strip_keeps_stripped:
  assumes "s = [] \<or> \<not> isspace (hd s)"
  shows "dropWhile isspace (rev (dropWhile isspace (rev s))) = rev (dropWhile isspace (rev s))"
proof (cases "dropWhile isspace (rev s)")
  case Nil
  show ?thesis by (simp only: Nil rev.simps dropWhile.simps)
next
  case (Cons c cs)
  let ?b = "dropWhile isspace (rev s)"
  have s: "s = rev ?b @ rev (takeWhile isspace (rev s))"
    by (metis rev_append rev_rev_ident takeWhile_dropWhile_id)
  have "rev ?b \<noteq> []" using Cons by simp
  then have "hd s = hd (rev ?b)"
    using s by (metis hd_append2)
  moreover have "s \<noteq> []" using Cons by auto
  ultimately have "\<not> isspace (hd (rev ?b))" using assms by simp
  with \<open>rev ?b \<noteq> []\<close> show ?thesis
    by (cases "rev ?b") simp_all
qed

lemma strip_strip: "strip (strip s) = strip s"
proof -
  let ?a = "dropWhile isspace s"
  have a: "?a = [] \<or> \<not> isspace (hd ?a)"
    using hd_dropWhile [of isspace s] by blast
  have "dropWhile isspace (strip s) = strip s"
    unfolding strip_def by (rule strip_keeps_stripped [OF a])
  then show ?thesis
    by (simp add: strip_def)
qed


lemma py_int_strip: "py_int (strip s) = py_int s"
  by (simp add: py_int_def strip_strip)

lemma summary_value_label:
  assumes "startswith line (p @ '':'')" and "CHR '':'' \<notin> set p"
  shows "summary_value line =
         py_int (takeWhile (\<lambda>c. c \<noteq> CHR '':'') (drop (length (p @ '':'')) line))"
proof -
  from assms(1) obtain t where t: "line = p @ CHR '':'' # t"
    by (auto simp: startswith_def prefix_def)
  show ?thesis
    using index_split_on_label [OF assms(2), of t]
    by (simp add: summary_value_def t py_int_strip)
qed

lemma value_after_scanned:
  "value_after ''Scanned files:'' line =
     (if startswith line ''Scanned files:'' then
        (case summary_value line of Inr n \<Rightarrow> Some n | Inl e \<Rightarrow> None) else None)"
  using summary_value_label [of line "''Scanned files''"]
  by (simp add: value_after_def)

lemma value_after_infected:
  "value_after ''Infected files:'' line =
     (if startswith line ''Infected files:'' then
        (case summary_value line of Inr n \<Rightarrow> Some n | Inl e \<Rightarrow> None) else None)"
  using summary_value_label [of line "''Infected files''"]
  by (simp add: value_after_def)

lemma label_has_colon:
  "startswith line ''Scanned files:'' \<or> startswith line ''Infected files:'' \<Longrightarrow> contains line '':''"
  by (auto simp: startswith_def contains_def prefix_def sublist_def
      intro: exI [of _ "''Scanned files''"] exI [of _ "''Infected files''"])

lemma labels_exclusive:
  "startswith line ''Scanned files:'' \<Longrightarrow> \<not> startswith line ''Infected files:''"
  by (auto simp: startswith_def prefix_def)

lemma summary_event_rules:
  "summary_event line =
     (case value_after ''Scanned files:'' line of
        Some n \<Rightarrow> Some (SummaryScanned n)
      | None \<Rightarrow> map_option SummaryInfected (value_after ''Infected files:'' line))"
  using label_has_colon [of line] labels_exclusive [of line]
  by (auto simp: summary_event_def value_after_scanned value_after_infected split: sum.splits)

lemma colon_ok_marker:
  "endswith line '': OK'' \<or> endswith line '': Empty file'' \<Longrightarrow> result_marker line"
proof -
  assume a: "endswith line '': OK'' \<or> endswith line '': Empty file''"
  have 1: "sublist '': '' '': OK''" "sublist '': '' '': Empty file''"
    by (simp_all add: sublist_Cons_right)
  have 2: "suffix '' OK'' '': OK''" "suffix '' Empty file'' '': Empty file''"
    by (simp_all add: suffix_ConsI)
  from a show ?thesis
    unfolding result_marker_def ends_with_marker_def
    by (meson 1 2 endswith_contains contains_part endswith_part)
qed

lemma no_colon_no_end: "\<not> contains line '':'' \<Longrightarrow> \<not> endswith line '':''"
  using endswith_contains by blast

lemma found_end: "(contains line '' FOUND'' \<or> endswith line '' FOUND'') = found_token line"
  using endswith_contains by (auto simp: found_token_def)

lemma strip_Nil: "strip [] = []"
  by (simp add: strip_def)

lemma rules_Nil: "rules result_marker [] = Ignored"
  by (simp add: rules_def found_token_def contains_def value_after_def startswith_def
      result_marker_def path_like_def)

lemma file_ok_conditions:
  "(endswith line '': OK'' \<or> endswith line '': Empty file'' \<or>
    contains line '': '' \<and>
      (endswith line '' OK'' \<or> endswith line '' Empty file'' \<or> endswith line '' Excluded'') \<or>
    startswith line ''/'' \<and> \<not> endswith line '':'' \<and> \<not> contains line '':'' \<and>
      length line > 10)
   = (result_marker line \<or> path_like line)"
  using colon_ok_marker [of line] no_colon_no_end [of line]
  unfolding result_marker_def ends_with_marker_def path_like_def by blast

lemma classify_nonempty:
  assumes "strip output \<noteq> []"
  shows "classify output = rules result_marker (strip output)"
proof -
  from assms have o: "output \<noteq> []" by (auto simp: strip_Nil)
  let ?line = "strip output"
  have fo: "(if endswith ?line '': OK'' \<or> endswith ?line '': Empty file'' then FileOk
             else if contains ?line '': '' \<and>
                     (endswith ?line '' OK'' \<or> endswith ?line '' Empty file'' \<or>
                      endswith ?line '' Excluded'') then FileOk
             else if startswith ?line ''/'' \<and> \<not> endswith ?line '':'' \<and>
                     \<not> contains ?line '':'' \<and> length ?line > 10 then FileOk
             else Ignored)
            = (if result_marker ?line then FileOk
               else if path_like ?line then FileOk else Ignored)"
    using file_ok_conditions [of ?line] by auto
  have "classify output =
          (if found_token ?line then ThreatFound ?line
           else case summary_event ?line of
             Some e \<Rightarrow> e
           | None \<Rightarrow> if result_marker ?line then FileOk
                     else if path_like ?line then FileOk else Ignored)"
    unfolding classify_def Let_def found_end fo
    using assms o by (simp split del: if_split)
  also have "\<dots> = rules result_marker ?line"
    by (simp add: rules_def summary_event_rules split: option.splits)
  finally show ?thesis .
qed




lemma parse_summary_event:
  "parse_summary r line = map_option (\<lambda>e. apply_event e r) (summary_event line)"
  by (simp add: parse_summary_def summary_event_def split: sum.splits)

lemma summary_event_cases:
  "summary_event line = Some e \<Longrightarrow> (\<exists>n. e = SummaryScanned n) \<or> (\<exists>n. e = SummaryInfected n)"
  by (auto simp: summary_event_def split: if_splits sum.splits)

lemma parse_scan_output_classify:
  "parse_scan_output r output = apply_event (classify output) r"
  by (simp add: parse_scan_output_def classify_def parse_summary_event Let_def
           split: option.splits)

lemma final_counters_scanned: "scanned r \<le> scanned (final_counters r line)"
  by (simp add: final_counters_def split: sum.splits)

lemma final_counters_infected: "infected r \<le> infected (final_counters r line)"
  by (simp add: final_counters_def split: sum.splits)

lemma final_counters_threats: "threats (final_counters r line) = threats r"
  by (simp add: final_counters_def split: sum.splits)

lemma final_line_mono:
  "scanned r \<le> scanned (final_line r raw) \<and> infected r \<le> infected (final_line r raw)"
  by (simp add: final_line_def Let_def final_counters_scanned final_counters_infected)

lemma final_line_distinct: "distinct (threats r) \<Longrightarrow> distinct (threats (final_line r raw))"
  by (simp add: final_line_def Let_def final_counters_threats)

lemma foldl_final_line_mono:
  "scanned r \<le> scanned (foldl final_line r ls) \<and> infected r \<le> infected (foldl final_line r ls)"
proof (induction ls arbitrary: r)
  case Nil
  show ?case by simp
next
  case (Cons l ls)
  from final_line_mono [of r l] Cons.IH [of "final_line r l"]
  show ?case by (simp; linarith)
qed

lemma parse_final_results_mono:
  "scanned r \<le> scanned (parse_final_results r out) \<and> infected r \<le> infected (parse_final_results r out)"
  by (simp add: parse_final_results_def foldl_final_line_mono)

lemma foldl_final_line_distinct:
  "distinct (threats r) \<Longrightarrow> distinct (threats (foldl final_line r ls))"
  by (induction ls arbitrary: r) (simp_all add: final_line_distinct)

lemma parse_final_results_distinct:
  "distinct (threats r) \<Longrightarrow> distinct (threats (parse_final_results r out))"
  by (simp add: parse_final_results_def foldl_final_line_distinct)

lemma classify_blank: "strip l = [] \<Longrightarrow> classify l = Ignored"
  by (simp add: classify_def)

section \<open>The claims about the parsers\<close>

text \<open>
  C1 (the code departs from it). A threat descriptor is to be recorded once, however
  often its line is fed. \<open>parse_scan_output\<close> appends the line without looking at the
  list, so the same line read twice stands twice in \<open>threats\<close> (and counts twice);
  \<open>parse_final_results\<close> does look (\<open>parse_final_results_distinct\<close>), yet nothing calls
  it. The theorem evaluates the live parser on a repeated line.
\<close>

theorem live_parser_records_repeated_threat_twice:
  "threats (live_lines reset_results
      [''/mnt/usb/eicar.com: Win.Test.EICAR_HDB-1 FOUND'',
       ''/mnt/usb/eicar.com: Win.Test.EICAR_HDB-1 FOUND''])
   = [''/mnt/usb/eicar.com: Win.Test.EICAR_HDB-1 FOUND'',
      ''/mnt/usb/eicar.com: Win.Test.EICAR_HDB-1 FOUND'']"
  by code_simp

text \<open>
  C2 (the code departs from it). The output buffered when the process exits is to be
  reconciled with the maximum rule. \<open>perform_virus_scan\<close> hands that output to
  \<open>parse_scan_output\<close> (\<open>drain_remaining\<close>), which assigns the reported number: after two
  files counted live, a buffered summary reporting one file leaves \<open>scanned\<close> at one.
  \<open>parse_final_results\<close>, which takes the maximum (\<open>parse_final_results_mono\<close>) and
  would keep two, is never called.
\<close>

theorem drain_overwrites_live_count:
  "scanned (live_lines reset_results [''/mnt/usb/a.txt: OK'', ''/mnt/usb/b.txt: Empty file'']) = 2 \<and>
   scanned (drain_remaining
      (live_lines reset_results [''/mnt/usb/a.txt: OK'', ''/mnt/usb/b.txt: Empty file''])
      (join [CHR 0x0A]
         [''----------- SCAN SUMMARY -----------'', ''Scanned files: 1'', ''Infected files: 0''])) = 1 \<and>
   scanned (parse_final_results
      (live_lines reset_results [''/mnt/usb/a.txt: OK'', ''/mnt/usb/b.txt: Empty file''])
      (join [CHR 0x0A]
         [''----------- SCAN SUMMARY -----------'', ''Scanned files: 1'', ''Infected files: 0''])) = 2"
  by code_simp

text \<open>
  C3, as stated, fails: in the live phase a summary line overwrites its counter, so the
  next line can lower \<open>scanned\<close>, and more than once in a session.
\<close>

theorem live_summary_lowers_scanned:
  "scanned (live_lines reset_results
      [''/mnt/usb/a.txt: OK'', ''/mnt/usb/b.txt: Empty file'', ''Scanned files: 1''])
   < scanned (live_lines reset_results [''/mnt/usb/a.txt: OK'', ''/mnt/usb/b.txt: Empty file'']) \<and>
   scanned (live_lines reset_results
      [''/mnt/usb/a.txt: OK'', ''/mnt/usb/b.txt: Empty file'', ''Scanned files: 1'',
       ''/mnt/usb/c.txt: OK'', ''/mnt/usb/d.txt: Empty file'', ''Scanned files: 2''])
   < scanned (live_lines reset_results
      [''/mnt/usb/a.txt: OK'', ''/mnt/usb/b.txt: Empty file'', ''Scanned files: 1'',
       ''/mnt/usb/c.txt: OK'', ''/mnt/usb/d.txt: Empty file''])"
  by code_simp

text \<open>
  C3, amended: processing a line never lowers \<open>scanned\<close> unless the line is classified
  \<open>SummaryScanned n\<close>, and never lowers \<open>infected\<close> unless it is classified
  \<open>SummaryInfected n\<close>; such a line sets its counter to \<open>n\<close>, whatever it was.
\<close>

theorem live_counters_lowered_only_by_summary:
  "((\<forall>n. classify l \<noteq> SummaryScanned n) \<longrightarrow> scanned r \<le> scanned (parse_scan_output r l)) \<and>
   ((\<forall>n. classify l \<noteq> SummaryInfected n) \<longrightarrow> infected r \<le> infected (parse_scan_output r l)) \<and>
   (classify l = SummaryScanned n \<longrightarrow> scanned (parse_scan_output r l) = n) \<and>
   (classify l = SummaryInfected n \<longrightarrow> infected (parse_scan_output r l) = n)"
  by (cases "classify l") (simp_all add: parse_scan_output_classify)

theorem live_counters_lowered_only_by_summary_witness:
  "scanned reset_results \<le> scanned (parse_scan_output reset_results ''/mnt/usb/a.txt: OK'') \<and>
   infected reset_results \<le> infected (parse_scan_output reset_results ''/mnt/usb/a.txt: OK'') \<and>
   scanned (parse_scan_output reset_results ''Scanned files: 7'') = 7 \<and>
   infected (parse_scan_output reset_results ''Infected files: 2'') = 2"
proof -
  have a: "classify ''/mnt/usb/a.txt: OK'' = FileOk" by code_simp
  have b: "classify ''Scanned files: 7'' = SummaryScanned 7" by code_simp
  have c: "classify ''Infected files: 2'' = SummaryInfected 2" by code_simp
  from live_counters_lowered_only_by_summary [of "''/mnt/usb/a.txt: OK''" reset_results] a
  have 1: "scanned reset_results \<le> scanned (parse_scan_output reset_results ''/mnt/usb/a.txt: OK'') \<and>
           infected reset_results \<le> infected (parse_scan_output reset_results ''/mnt/usb/a.txt: OK'')"
    by simp
  from live_counters_lowered_only_by_summary [of "''Scanned files: 7''" reset_results 7] b
  have 2: "scanned (parse_scan_output reset_results ''Scanned files: 7'') = 7" by simp
  from live_counters_lowered_only_by_summary [of "''Infected files: 2''" reset_results 2] c
  have 3: "infected (parse_scan_output reset_results ''Infected files: 2'') = 2" by simp
  from 1 2 3 show ?thesis by blast
qed

text \<open>
  C4, as stated, fails at its fourth rule: a line that ends with the marker \<open>OK\<close> but
  has no colon followed by a blank is not counted as a file by the code.
\<close>

theorem marker_without_colon_is_ignored:
  "classify ''all OK'' = Ignored \<and> classify_spec (strip ''all OK'') = FileOk \<and>
   parse_scan_output reset_results ''all OK'' = reset_results \<and>
   apply_event (classify_spec (strip ''all OK'')) reset_results \<noteq> reset_results"
  by code_simp

text \<open>
  C4, amended: the parser handles every line, stripped of surrounding white space, by
  the six rules in their priority, the first that matches deciding: a line with the
  token \<open>FOUND\<close> is a threat even if it also looks like a summary or a result line;
  else a line that begins \<open>Scanned files:\<close> with an integer sets the files scanned; else
  one that begins \<open>Infected files:\<close> with an integer sets the threats found; else, the
  fourth rule, a line that contains a colon followed by a blank and ends with \<open>OK\<close>,
  \<open>Empty file\<close> or \<open>Excluded\<close> after a blank counts as one file scanned (one
  increment of \<open>scanned\<close>); else a line without a colon that begins with a slash and
  is longer than ten characters counts as one file scanned; anything else is ignored.
  The results after the line are those before it, updated by the event of the rule.
\<close>

theorem parser_follows_amended_rules:
  "classify output = classify_amended (strip output) \<and>
   parse_scan_output r output = apply_event (classify_amended (strip output)) r \<and>
   (classify_amended (strip output) = FileOk \<longrightarrow>
      parse_scan_output r output = r\<lparr>scanned := scanned r + 1\<rparr>) \<and>
   (classify_amended (strip output) = Ignored \<longrightarrow> parse_scan_output r output = r)"
proof -
  have c: "classify output = classify_amended (strip output)"
  proof (cases "strip output = []")
    case True
    then show ?thesis by (simp add: classify_def classify_amended_def rules_Nil)
  next
    case False
    then show ?thesis by (simp add: classify_nonempty classify_amended_def)
  qed
  have p: "parse_scan_output r output = apply_event (classify_amended (strip output)) r"
    using c by (simp add: parse_scan_output_classify)
  from c p show ?thesis by simp
qed

theorem parser_follows_amended_rules_witness:
  "parse_scan_output reset_results ''/mnt/usb/a.txt: OK''
     = reset_results\<lparr>scanned := scanned reset_results + 1\<rparr> \<and>
   parse_scan_output reset_results ''/mnt/usb/docs/report''
     = reset_results\<lparr>scanned := scanned reset_results + 1\<rparr> \<and>
   parse_scan_output reset_results ''all OK'' = reset_results"
proof -
  have a: "classify_amended (strip ''/mnt/usb/a.txt: OK'') = FileOk" by code_simp
  have b: "classify_amended (strip ''/mnt/usb/docs/report'') = FileOk" by code_simp
  have c: "classify_amended (strip ''all OK'') = Ignored" by code_simp
  from parser_follows_amended_rules [of "''/mnt/usb/a.txt: OK''" reset_results] a
  have 1: "parse_scan_output reset_results ''/mnt/usb/a.txt: OK''
           = reset_results\<lparr>scanned := scanned reset_results + 1\<rparr>" by blast
  from parser_follows_amended_rules [of "''/mnt/usb/docs/report''" reset_results] b
  have 2: "parse_scan_output reset_results ''/mnt/usb/docs/report''
           = reset_results\<lparr>scanned := scanned reset_results + 1\<rparr>" by blast
  from parser_follows_amended_rules [of "''all OK''" reset_results] c
  have 3: "parse_scan_output reset_results ''all OK'' = reset_results" by blast
  from 1 2 3 show ?thesis by blast
qed

text \<open>
  C5, as stated, fails: a summary line whose value does not parse falls through to the
  later checks, and is counted as a file when it ends like a result line.
\<close>

theorem malformed_summary_counted_as_file:
  "summary_value ''Scanned files: OK'' = Inl ValueError \<and>
   classify ''Scanned files: OK'' = FileOk \<and>
   scanned (parse_scan_output reset_results ''Scanned files: OK'') = 1"
  by code_simp

text \<open>
  C5, amended: a line that begins with one of the two labels, whose value does not
  parse, and that neither contains the token \<open>FOUND\<close> nor is a result line of the fourth
  rule, is ignored: the parser returns (it is a total function, the exception is a
  value it consumes) and the results are exactly the prior ones.
\<close>

theorem malformed_summary_ignored:
  assumes "startswith (strip l) ''Scanned files:'' \<or> startswith (strip l) ''Infected files:''"
    and "summary_value (strip l) = Inl e"
    and "\<not> found_token (strip l)"
    and "\<not> result_marker (strip l)"
  shows "classify l = Ignored \<and> parse_scan_output r l = r"
proof -
  have c: "contains (strip l) '':''"
    using assms(1) by (rule label_has_colon)
  have "rules result_marker (strip l) = Ignored"
    using assms c
    by (auto simp: rules_def value_after_scanned value_after_infected path_like_def)
  moreover have "classify l = rules result_marker (strip l)"
  proof (cases "strip l = []")
    case True
    then show ?thesis by (simp add: classify_def rules_Nil)
  next
    case False
    then show ?thesis by (rule classify_nonempty)
  qed
  ultimately have "classify l = Ignored" by simp
  then show ?thesis by (simp add: parse_scan_output_classify)
qed

theorem malformed_summary_ignored_witness:
  "classify ''Scanned files: twelve'' = Ignored \<and>
   parse_scan_output reset_results ''Scanned files: twelve'' = reset_results"
proof -
  have 1: "startswith (strip ''Scanned files: twelve'') ''Scanned files:'' \<or>
           startswith (strip ''Scanned files: twelve'') ''Infected files:''" by code_simp
  have 2: "summary_value (strip ''Scanned files: twelve'') = Inl ValueError" by code_simp
  have 3: "\<not> found_token (strip ''Scanned files: twelve'')" by code_simp
  have 4: "\<not> result_marker (strip ''Scanned files: twelve'')" by code_simp
  show ?thesis by (rule malformed_summary_ignored [OF 1 2 3 4])
qed

text \<open>
  C6. The seven lines of the scenario, fed in order to the live parser from the reset
  results, end with twelve files scanned, one threat found and the one descriptor.
\<close>

theorem scenario_seven_lines:
  "live_lines reset_results
     [''Scanned files: 10'', ''/a/b/c: OK'', ''eicar.com: Win.Test.EICAR_HDB-1 FOUND'',
      ''Infected files: 1'', ''SCAN SUMMARY'', ''Scanned files: 12'', ''Infected files: 1'']
   = \<lparr>scanned = 12, infected = 1,
      threats = [''eicar.com: Win.Test.EICAR_HDB-1 FOUND'']\<rparr>"
  by code_simp

text \<open>
  C10. Each kind of line changes only its own fields: a line classified \<open>ThreatFound\<close>
  leaves \<open>scanned\<close> as it was; one classified \<open>SummaryScanned\<close> leaves \<open>infected\<close> and
  \<open>threats\<close>; one classified \<open>SummaryInfected\<close> leaves \<open>scanned\<close> and \<open>threats\<close>; one
  classified \<open>FileOk\<close> leaves \<open>infected\<close> and \<open>threats\<close>; one classified \<open>Ignored\<close>, and
  so an empty line or one of white space only, leaves all three. What a line does
  change is its own: a threat adds one to \<open>infected\<close> and its descriptor to \<open>threats\<close>,
  a summary sets its counter, a file adds one to \<open>scanned\<close>.
\<close>

theorem parser_frame:
  "(classify l = ThreatFound d \<longrightarrow>
      scanned (parse_scan_output r l) = scanned r \<and>
      infected (parse_scan_output r l) = infected r + 1 \<and>
      threats (parse_scan_output r l) = threats r @ [d]) \<and>
   (classify l = SummaryScanned n \<longrightarrow>
      infected (parse_scan_output r l) = infected r \<and>
      threats (parse_scan_output r l) = threats r \<and>
      scanned (parse_scan_output r l) = n) \<and>
   (classify l = SummaryInfected n \<longrightarrow>
      scanned (parse_scan_output r l) = scanned r \<and>
      threats (parse_scan_output r l) = threats r \<and>
      infected (parse_scan_output r l) = n) \<and>
   (classify l = FileOk \<longrightarrow>
      infected (parse_scan_output r l) = infected r \<and>
      threats (parse_scan_output r l) = threats r \<and>
      scanned (parse_scan_output r l) = scanned r + 1) \<and>
   (classify l = Ignored \<longrightarrow> parse_scan_output r l = r) \<and>
   (strip l = [] \<longrightarrow> parse_scan_output r l = r)"
  by (simp add: parse_scan_output_classify classify_blank)

theorem parser_frame_witness:
  "scanned (parse_scan_output reset_results ''eicar.com: Win.Test.EICAR_HDB-1 FOUND'')
     = scanned reset_results \<and>
   (infected (parse_scan_output reset_results ''Scanned files: 7'') = infected reset_results \<and>
    threats (parse_scan_output reset_results ''Scanned files: 7'') = threats reset_results) \<and>
   (scanned (parse_scan_output reset_results ''Infected files: 2'') = scanned reset_results \<and>
    threats (parse_scan_output reset_results ''Infected files: 2'') = threats reset_results) \<and>
   (infected (parse_scan_output reset_results ''/mnt/usb/a.txt: OK'') = infected reset_results \<and>
    threats (parse_scan_output reset_results ''/mnt/usb/a.txt: OK'') = threats reset_results) \<and>
   parse_scan_output reset_results ''----------- SCAN SUMMARY -----------'' = reset_results \<and>
   parse_scan_output reset_results [CHR 0x20, CHR 0x09] = reset_results"
proof -
  have a: "classify ''eicar.com: Win.Test.EICAR_HDB-1 FOUND''
           = ThreatFound ''eicar.com: Win.Test.EICAR_HDB-1 FOUND''" by code_simp
  have b: "classify ''Scanned files: 7'' = SummaryScanned 7" by code_simp
  have c: "classify ''Infected files: 2'' = SummaryInfected 2" by code_simp
  have d: "strip [CHR 0x20, CHR 0x09] = []" by code_simp
  have e: "classify ''/mnt/usb/a.txt: OK'' = FileOk" by code_simp
  have f: "classify ''----------- SCAN SUMMARY -----------'' = Ignored" by code_simp
  from parser_frame [of "''eicar.com: Win.Test.EICAR_HDB-1 FOUND''"
                        "''eicar.com: Win.Test.EICAR_HDB-1 FOUND''" reset_results] a
  have 1: "scanned (parse_scan_output reset_results ''eicar.com: Win.Test.EICAR_HDB-1 FOUND'')
           = scanned reset_results" by blast
  from parser_frame [of "''Scanned files: 7''" _ reset_results 7] b
  have 2: "infected (parse_scan_output reset_results ''Scanned files: 7'') = infected reset_results \<and>
           threats (parse_scan_output reset_results ''Scanned files: 7'') = threats reset_results"
    by blast
  from parser_frame [of "''Infected files: 2''" _ reset_results 2] c
  have 3: "scanned (parse_scan_output reset_results ''Infected files: 2'') = scanned reset_results \<and>
           threats (parse_scan_output reset_results ''Infected files: 2'') = threats reset_results"
    by blast
  from parser_frame [of "[CHR 0x20, CHR 0x09]" _ reset_results] d
  have 4: "parse_scan_output reset_results [CHR 0x20, CHR 0x09] = reset_results" by blast
  from parser_frame [of "''/mnt/usb/a.txt: OK''" _ reset_results] e
  have 5: "infected (parse_scan_output reset_results ''/mnt/usb/a.txt: OK'') = infected reset_results \<and>
           threats (parse_scan_output reset_results ''/mnt/usb/a.txt: OK'') = threats reset_results"
    by blast
  from parser_frame [of "''----------- SCAN SUMMARY -----------''" _ reset_results] f
  have 6: "parse_scan_output reset_results ''----------- SCAN SUMMARY -----------'' = reset_results"
    by blast
  from 1 2 3 4 5 6 show ?thesis by blast
qed

section \<open>Lemmas: the mounting loop, the targets and the cleanup\<close>


lemma mount_partition_state:
  "fst (mount_partition w part (ts, ms)) =
     (if mounted_ok w part then (ts @ [mount_point_of w part], ms @ [mount_point_of w part])
      else (ts, ms))"
  by (simp add: mount_partition_def mounted_ok_def mount_point_of_def Let_def
           split: mount_outcome.splits)

lemma mount_partition_effects:
  "effects (snd (mount_partition w part st)) = attempt w part"
  by (cases st)
     (simp add: mount_partition_def attempt_def effects_def is_log_def mounted_ok_def
        mount_point_of_def Let_def split: mount_outcome.splits)

lemma effects_append: "effects (xs @ ys) = effects xs @ effects ys"
  by (simp add: effects_def)

lemma mount_all_Cons:
  "mount_all w (p # ps) st =
     (fst (mount_all w ps (fst (mount_partition w p st))),
      snd (mount_partition w p st) @ snd (mount_all w ps (fst (mount_partition w p st))))"
  by (simp split: prod.splits)

lemma mount_all_state:
  "fst (mount_all w parts (ts, ms)) =
     (ts @ map (mount_point_of w) (filter (mounted_ok w) parts),
      ms @ map (mount_point_of w) (filter (mounted_ok w) parts))"
proof (induction parts arbitrary: ts ms)
  case Nil
  show ?case by simp
next
  case (Cons p ps)
  show ?case
    unfolding mount_all_Cons mount_partition_state
    by (simp add: Cons.IH)
qed

lemma mount_all_effects:
  "effects (snd (mount_all w parts st)) = concat (map (attempt w) parts)"
proof (induction parts arbitrary: st)
  case Nil
  show ?case by (simp add: effects_def)
next
  case (Cons p ps)
  show ?case
    unfolding mount_all_Cons
    by (simp add: effects_append mount_partition_effects Cons.IH)
qed

lemma get_disk_partitions_failed: "get_disk_partitions device (Inl e) = []"
  by (simp add: get_disk_partitions_def)

lemma resolve_targets_deep:
  "resolve_targets w ''deep'' device =
     (let parts = get_disk_partitions device (lsblk_result w);
          mounted = map (mount_point_of w) (filter (mounted_ok w) parts)
      in ((if mounted = [] then [''/''] else mounted, mounted),
          snd (resolve_targets w ''deep'' device)))"
proof -
  let ?parts = "get_disk_partitions device (lsblk_result w)"
  obtain acts where m: "mount_all w ?parts ([], []) =
      ((map (mount_point_of w) (filter (mounted_ok w) ?parts),
        map (mount_point_of w) (filter (mounted_ok w) ?parts)), acts)"
    using mount_all_state [of w ?parts "[]" "[]"]
    by (cases "mount_all w ?parts ([], [])") simp
  show ?thesis
    by (cases "?parts = []") (simp_all add: resolve_targets_def Let_def m)
qed

lemma resolve_targets_quick:
  "mode \<noteq> ''deep'' \<Longrightarrow> fst (resolve_targets w mode device) = ([''/''], [])"
  by (simp add: resolve_targets_def)

lemma run_scan_starts: "\<exists>acts. snd (snd (run_scan w cmd r)) = Popen cmd # acts"
  by (simp add: run_scan_def split: scan_outcome.splits prod.splits)

lemma run_scan_raised: "\<not> scan_raises w \<Longrightarrow> fst (snd (run_scan w cmd r)) = None"
  by (simp add: run_scan_def scan_raises_def split: scan_outcome.splits prod.splits)

lemma perform_virus_scan_parts:
  "perform_virus_scan w remove_infected mode device r =
     (let targets = fst (fst (resolve_targets w mode device));
          mps = snd (fst (resolve_targets w mode device));
          cmd = clamscan_options remove_infected @ targets;
          run = run_scan w cmd r
      in (fst run,
          map_option (\<lambda>msg. OtherException (''Scan execution failed: '' @ msg))
            (fst (snd run)),
          UpdateLog (''Starting virus scan on '' @ device @ ''...'') #
          snd (resolve_targets w mode device) @
          [UpdateLog (''Scan command: '' @ join '' '' cmd),
           UpdateLog (''Scanning targets: '' @ join '', '' targets)] @
          snd (snd run) @ cleanup w mps))"
  by (simp add: perform_virus_scan_def Let_def split: prod.splits)

lemma unmount_effects: "effects (unmount w mp) = release w mp"
  by (simp add: unmount_def release_def effects_def is_log_def escalated_def rmdir_reached_def
           split: umount_outcome.splits rmdir_outcome.splits force_outcome.splits)

lemma cleanup_effects: "effects (cleanup w mps) = concat (map (release w) mps)"
  by (induction mps) (simp_all add: cleanup_def effects_def unmount_effects [unfolded effects_def])

lemma unmount_warns:
  "(\<exists>msg. LogWarning msg \<in> set (unmount w mp)) = cleanup_failed (umount_result w mp)"
  by (auto simp: unmount_def cleanup_failed_def
           split: umount_outcome.splits rmdir_outcome.splits force_outcome.splits)

lemma unmount_logs_timeout:
  "(UpdateLog (''Timeout unmounting '' @ mp) \<in> set (unmount w mp)) = escalated (umount_result w mp)"
  by (auto simp: unmount_def escalated_def
           split: umount_outcome.splits rmdir_outcome.splits force_outcome.splits)

lemma perform_ends_with_cleanup:
  "suffix (cleanup w (snd (fst (resolve_targets w mode device))))
          (snd (snd (perform_virus_scan w remove_infected mode device r)))"
proof -
  let ?mps = "snd (fst (resolve_targets w mode device))"
  show ?thesis
    unfolding perform_virus_scan_parts Let_def snd_conv
    by (intro suffix_ConsI suffix_appendI) simp
qed

lemma perform_raises_only_from_scan:
  "(fst (snd (perform_virus_scan w remove_infected mode device r)) \<noteq> None) = scan_raises w"
  by (simp add: perform_virus_scan_parts Let_def run_scan_def scan_raises_def
           split: scan_outcome.splits prod.splits)

lemma mount_points_deep:
  "snd (fst (resolve_targets w ''deep'' device)) =
     map (mount_point_of w) (filter (mounted_ok w) (get_disk_partitions device (lsblk_result w)))"
  by (subst resolve_targets_deep) (simp add: Let_def)

section \<open>The claims about the session\<close>

text \<open>
  C7. The loop over the partitions runs the turn of every partition, in order, whatever
  happened to the ones before. Its effects are those of \<open>attempt\<close> for each partition:
  after a mount that did not succeed (a non-zero exit status, the timeout of 30
  seconds, or an exception, that of \<open>os.makedirs\<close> included) the removal of the mount
  point comes before the next partition's turn. The scan targets, and the mount points
  kept for the cleanup, are the mount points of the partitions that mounted: a
  partition that failed adds none.
\<close>

theorem mount_loop_cleans_and_skips_failures:
  "fst (mount_all w parts ([], [])) =
     (map (mount_point_of w) (filter (mounted_ok w) parts),
      map (mount_point_of w) (filter (mounted_ok w) parts)) \<and>
   effects (snd (mount_all w parts ([], []))) = concat (map (attempt w) parts)"
  using mount_all_state [of w parts "[]" "[]"] mount_all_effects [of w parts "([], [])"]
  by simp

text \<open>
  C8. In deep mode, when no discovered partition mounts (in particular when none is
  discovered, as when the \<open>lsblk\<close> query raises and \<open>get_disk_partitions\<close> returns the
  empty list), the only scan target is the root file system and no mount point is
  kept; the scan process is started on that target, and the session raises nothing
  unless the scan itself does.
\<close>

theorem deep_scan_falls_back_to_root:
  assumes "list_all (\<lambda>part. \<not> mounted_ok w part) (get_disk_partitions device (lsblk_result w))"
  shows "get_disk_partitions device (Inl e) = [] \<and>
         fst (resolve_targets w ''deep'' device) = ([''/''], []) \<and>
         Popen (clamscan_options remove_infected @ [''/''])
           \<in> set (snd (snd (perform_virus_scan w remove_infected ''deep'' device r))) \<and>
         (scan_raises w \<or> fst (snd (perform_virus_scan w remove_infected ''deep'' device r)) = None)"
proof -
  let ?parts = "get_disk_partitions device (lsblk_result w)"
  from assms have none: "filter (mounted_ok w) ?parts = []"
    by (simp add: list_all_iff filter_empty_conv)
  have t: "fst (resolve_targets w ''deep'' device) = ([''/''], [])"
    by (subst resolve_targets_deep) (simp add: Let_def none)
  obtain acts where a: "snd (snd (run_scan w (clamscan_options remove_infected @ [''/'']) r))
      = Popen (clamscan_options remove_infected @ [''/'']) # acts"
    using run_scan_starts by blast
  have p: "Popen (clamscan_options remove_infected @ [''/''])
           \<in> set (snd (snd (perform_virus_scan w remove_infected ''deep'' device r)))"
    by (simp add: perform_virus_scan_parts Let_def t a)
  have n: "scan_raises w \<or> fst (snd (perform_virus_scan w remove_infected ''deep'' device r)) = None"
  proof (cases "scan_raises w")
    case True
    then show ?thesis by simp
  next
    case False
    then show ?thesis by (simp add: perform_virus_scan_parts Let_def run_scan_raised)
  qed
  from t p n show ?thesis by (simp add: get_disk_partitions_failed)
qed


theorem deep_scan_falls_back_to_root_witness:
  "fst (resolve_targets
      \<lparr>lsblk_result = Inl (OtherException ''lsblk: /dev/sdb: not a block device''),
       clock = (\<lambda>part. 173), mount_result = (\<lambda>part. MountTimedOut),
       scan_run = Exited [Line ''/etc/hosts: OK''] [],
       umount_result = (\<lambda>mp. UmountReturned Removed)\<rparr> ''deep'' ''/dev/sdb'') = ([''/''], []) \<and>
   fst (resolve_targets
      \<lparr>lsblk_result = Inr (join [CHR 0x0A] [''sdb'', tree_branch @ ''sdb1'', tree_corner @ ''sdb2'']),
       clock = (\<lambda>part. 173),
       mount_result = (\<lambda>part. if part = ''/dev/sdb1'' then MountTimedOut
                               else MountReturned 32 ''mount: wrong fs type''),
       scan_run = Exited [Line ''/etc/hosts: OK''] [],
       umount_result = (\<lambda>mp. UmountReturned Removed)\<rparr> ''deep'' ''/dev/sdb'') = ([''/''], []) \<and>
   fst (snd (perform_virus_scan
      \<lparr>lsblk_result = Inr (join [CHR 0x0A] [''sdb'', tree_branch @ ''sdb1'', tree_corner @ ''sdb2'']),
       clock = (\<lambda>part. 173),
       mount_result = (\<lambda>part. if part = ''/dev/sdb1'' then MountTimedOut
                               else MountReturned 32 ''mount: wrong fs type''),
       scan_run = Exited [Line ''/etc/hosts: OK''] [],
       umount_result = (\<lambda>mp. UmountReturned Removed)\<rparr> False ''deep'' ''/dev/sdb'' reset_results)) = None"
proof -
  let ?w1 = "\<lparr>lsblk_result = Inl (OtherException ''lsblk: /dev/sdb: not a block device''),
       clock = (\<lambda>part. 173), mount_result = (\<lambda>part. MountTimedOut),
       scan_run = Exited [Line ''/etc/hosts: OK''] [],
       umount_result = (\<lambda>mp. UmountReturned Removed)\<rparr>"
  let ?w2 = "\<lparr>lsblk_result = Inr (join [CHR 0x0A] [''sdb'', tree_branch @ ''sdb1'', tree_corner @ ''sdb2'']),
       clock = (\<lambda>part. 173),
       mount_result = (\<lambda>part. if part = ''/dev/sdb1'' then MountTimedOut
                               else MountReturned 32 ''mount: wrong fs type''),
       scan_run = Exited [Line ''/etc/hosts: OK''] [],
       umount_result = (\<lambda>mp. UmountReturned Removed)\<rparr>"
  have p2: "get_disk_partitions ''/dev/sdb'' (lsblk_result ?w2) = [''/dev/sdb1'', ''/dev/sdb2'']"
    by code_simp
  have h1: "list_all (\<lambda>part. \<not> mounted_ok ?w1 part)
              (get_disk_partitions ''/dev/sdb'' (lsblk_result ?w1))"
    by (simp add: get_disk_partitions_def)
  have h2: "list_all (\<lambda>part. \<not> mounted_ok ?w2 part)
              (get_disk_partitions ''/dev/sdb'' (lsblk_result ?w2))"
    unfolding p2 by (simp add: mounted_ok_def)
  have s2: "\<not> scan_raises ?w2" by (simp add: scan_raises_def)
  from deep_scan_falls_back_to_root [OF h1] deep_scan_falls_back_to_root [OF h2, of _ False reset_results] s2
  show ?thesis by blast
qed


text \<open>
  C9, as stated, fails where it says that the removal of the directory is tried whatever
  the outcome: when the graceful unmount times out and the forced one fails, the
  handler only logs a warning, and \<open>os.rmdir\<close> is never called for the mount point.
\<close>

theorem forced_unmount_failure_skips_rmdir:
  "Umount ''/tmp/virus_scan__dev_sdb1_173'' 10 \<in> set (snd (snd (perform_virus_scan
      \<lparr>lsblk_result = Inr (join [CHR 0x0A] [''sdb'', tree_corner @ ''sdb1'']),
       clock = (\<lambda>part. 173),
       mount_result = (\<lambda>part. MountReturned 0 []),
       scan_run = Exited [Line ''/tmp/virus_scan__dev_sdb1_173/a.txt: OK''] [],
       umount_result = (\<lambda>mp. UmountTimedOut ForceFailed)\<rparr>
      False ''deep'' ''/dev/sdb'' reset_results))) \<and>
   UmountForce ''/tmp/virus_scan__dev_sdb1_173'' 5 \<in> set (snd (snd (perform_virus_scan
      \<lparr>lsblk_result = Inr (join [CHR 0x0A] [''sdb'', tree_corner @ ''sdb1'']),
       clock = (\<lambda>part. 173),
       mount_result = (\<lambda>part. MountReturned 0 []),
       scan_run = Exited [Line ''/tmp/virus_scan__dev_sdb1_173/a.txt: OK''] [],
       umount_result = (\<lambda>mp. UmountTimedOut ForceFailed)\<rparr>
      False ''deep'' ''/dev/sdb'' reset_results))) \<and>
   Rmdir ''/tmp/virus_scan__dev_sdb1_173'' \<notin> set (snd (snd (perform_virus_scan
      \<lparr>lsblk_result = Inr (join [CHR 0x0A] [''sdb'', tree_corner @ ''sdb1'']),
       clock = (\<lambda>part. 173),
       mount_result = (\<lambda>part. MountReturned 0 []),
       scan_run = Exited [Line ''/tmp/virus_scan__dev_sdb1_173/a.txt: OK''] [],
       umount_result = (\<lambda>mp. UmountTimedOut ForceFailed)\<rparr>
      False ''deep'' ''/dev/sdb'' reset_results)))"
  by code_simp

text \<open>
  C9, amended. On every exit of \<open>perform_virus_scan\<close>, an exception of the scan included,
  its actions end with the cleanup of the mount points it kept, which in deep mode are
  those of the partitions that mounted. For each of them the graceful unmount is run
  with a bound of 10 seconds, the forced one with a bound of 5 seconds exactly when
  the graceful one timed out, and the directory is removed exactly when the unmount
  tried last has returned. A failure is logged as a warning, the timeout as a line of
  the log, and the only exception the session can raise is one of the scan.
\<close>

theorem cleanup_on_every_exit:
  "suffix (cleanup w (snd (fst (resolve_targets w mode device))))
          (snd (snd (perform_virus_scan w remove_infected mode device r))) \<and>
   snd (fst (resolve_targets w ''deep'' device)) =
     map (mount_point_of w) (filter (mounted_ok w) (get_disk_partitions device (lsblk_result w))) \<and>
   effects (cleanup w mount_points) = concat (map (release w) mount_points) \<and>
   (\<exists>msg. LogWarning msg \<in> set (unmount w mount_point))
     = cleanup_failed (umount_result w mount_point) \<and>
   (UpdateLog (''Timeout unmounting '' @ mount_point) \<in> set (unmount w mount_point))
     = escalated (umount_result w mount_point) \<and>
   (fst (snd (perform_virus_scan w remove_infected mode device r)) \<noteq> None) = scan_raises w"
  using perform_ends_with_cleanup [of w mode device remove_infected r]
    mount_points_deep [of w device] cleanup_effects [of w mount_points]
    unmount_warns [of w mount_point] unmount_logs_timeout [of mount_point w]
    perform_raises_only_from_scan [of w remove_infected mode device r]
  by blast

end
